theory Spec2Isabelle
  imports Complex_Main "HOL-Library.Word"
begin

unbundle bit_operations_syntax

section \<open>JavaScript strings\<close>

text \<open>
  A JavaScript string is modelled as a \<^typ>\<open>string\<close>: the list of the bytes of its UTF-8
  encoding. The operations below are the \<open>String.prototype\<close> methods the service calls.
  Case folding is the one of the ASCII letters, and white space is the ASCII white space;
  every literal the service searches for (keywords, phrases, the regular expression) is
  ASCII.
\<close>

definition lower_char :: "char \<Rightarrow> char" where
  "lower_char c =
     (case map_of (zip ''ABCDEFGHIJKLMNOPQRSTUVWXYZ'' ''abcdefghijklmnopqrstuvwxyz'') c of
        None \<Rightarrow> c
      | Some d \<Rightarrow> d)"

definition toLowerCase :: "string \<Rightarrow> string" where
  "toLowerCase s = map lower_char s"

fun startsWith :: "string \<Rightarrow> string \<Rightarrow> bool" where
  "startsWith s [] = True"
| "startsWith [] (p # ps) = False"
| "startsWith (c # cs) (p # ps) = (c = p \<and> startsWith cs ps)"

fun js_includes :: "string \<Rightarrow> string \<Rightarrow> bool" where
  "js_includes [] sub = (sub = [])"
| "js_includes (c # cs) sub = (startsWith (c # cs) sub \<or> js_includes cs sub)"

definition js_whitespace :: "char \<Rightarrow> bool" where
  "js_whitespace c = (c \<in> set [CHR 0x09, CHR 0x0A, CHR 0x0B, CHR 0x0C, CHR 0x0D, CHR '' ''])"

definition trim :: "string \<Rightarrow> string" where
  "trim s = rev (dropWhile js_whitespace (rev (dropWhile js_whitespace s)))"

text \<open>
  \<open>s.replace(/pat/gi, '')\<close> for a literal pattern: scanning from the left, every match
  (compared character by character without regard to case) is dropped and the scan goes
  on behind it.
\<close>

fun startsWith_ci :: "string \<Rightarrow> string \<Rightarrow> bool" where
  "startsWith_ci s [] = True"
| "startsWith_ci [] (p # ps) = False"
| "startsWith_ci (c # cs) (p # ps) = (lower_char c = lower_char p \<and> startsWith_ci cs ps)"

function remove_all_ci :: "string \<Rightarrow> string \<Rightarrow> string" where
  "remove_all_ci pat [] = []"
| "remove_all_ci pat (c # cs) =
     (if pat \<noteq> [] \<and> startsWith_ci (c # cs) pat
      then remove_all_ci pat (drop (length pat) (c # cs))
      else c # remove_all_ci pat cs)"
  by pat_completeness auto
termination
  by (relation "measure (\<lambda>(pat, s). length s)") auto

text \<open>\<open>xs.join(sep)\<close> and \<open>s.split(sep)\<close> for a non-empty separator.\<close>

fun join :: "string \<Rightarrow> string list \<Rightarrow> string" where
  "join sep [] = []"
| "join sep [x] = x"
| "join sep (x # y # ys) = x @ sep @ join sep (y # ys)"

function split_from :: "string \<Rightarrow> string \<Rightarrow> string \<Rightarrow> string list" where
  "split_from sep cur [] = [cur]"
| "split_from sep cur (c # cs) =
     (if sep \<noteq> [] \<and> startsWith (c # cs) sep
      then cur # split_from sep [] (drop (length sep) (c # cs))
      else split_from sep (cur @ [c]) cs)"
  by pat_completeness auto
termination
  by (relation "measure (\<lambda>(sep, cur, s). length s)") auto

definition split :: "string \<Rightarrow> string \<Rightarrow> string list" where
  "split sep s = split_from sep [] s"

text \<open>Decimal rendering of an integer, as \<open>String(n)\<close> and a template literal give it.\<close>

definition digit_char :: "nat \<Rightarrow> char" where
  "digit_char n = ''0123456789'' ! (n mod 10)"

function show_nat :: "nat \<Rightarrow> string" where
  "show_nat n = (if n < 10 then [digit_char n] else show_nat (n div 10) @ [digit_char n])"
  by pat_completeness auto
termination
  by (relation "measure id") auto

declare show_nat.simps [simp del]

definition show_int :: "int \<Rightarrow> string" where
  "show_int i = (if i < 0 then CHR ''-'' # show_nat (nat (- i)) else show_nat (nat i))"

section \<open>MD5 (\<open>crypto.createHash('md5')\<close>)\<close>

text \<open>
  The digest of RFC 1321 over the bytes of the text, rendered in lower-case hexadecimal
  as \<open>digest('hex')\<close> does.
\<close>

type_synonym byte = "8 word"
type_synonym u32 = "32 word"
type_synonym md5_state = "u32 \<times> u32 \<times> u32 \<times> u32"

definition md5_K :: "u32 list" where
  "md5_K = [
    0xd76aa478, 0xe8c7b756, 0x242070db, 0xc1bdceee, 0xf57c0faf, 0x4787c62a, 0xa8304613, 0xfd469501,
    0x698098d8, 0x8b44f7af, 0xffff5bb1, 0x895cd7be, 0x6b901122, 0xfd987193, 0xa679438e, 0x49b40821,
    0xf61e2562, 0xc040b340, 0x265e5a51, 0xe9b6c7aa, 0xd62f105d, 0x02441453, 0xd8a1e681, 0xe7d3fbc8,
    0x21e1cde6, 0xc33707d6, 0xf4d50d87, 0x455a14ed, 0xa9e3e905, 0xfcefa3f8, 0x676f02d9, 0x8d2a4c8a,
    0xfffa3942, 0x8771f681, 0x6d9d6122, 0xfde5380c, 0xa4beea44, 0x4bdecfa9, 0xf6bb4b60, 0xbebfbc70,
    0x289b7ec6, 0xeaa127fa, 0xd4ef3085, 0x04881d05, 0xd9d4d039, 0xe6db99e5, 0x1fa27cf8, 0xc4ac5665,
    0xf4292244, 0x432aff97, 0xab9423a7, 0xfc93a039, 0x655b59c3, 0x8f0ccc92, 0xffeff47d, 0x85845dd1,
    0x6fa87e4f, 0xfe2ce6e0, 0xa3014314, 0x4e0811a1, 0xf7537e82, 0xbd3af235, 0x2ad7d2bb, 0xeb86d391]"

definition md5_S :: "nat list" where
  "md5_S = [7, 12, 17, 22, 7, 12, 17, 22, 7, 12, 17, 22, 7, 12, 17, 22,
            5, 9, 14, 20, 5, 9, 14, 20, 5, 9, 14, 20, 5, 9, 14, 20,
            4, 11, 16, 23, 4, 11, 16, 23, 4, 11, 16, 23, 4, 11, 16, 23,
            6, 10, 15, 21, 6, 10, 15, 21, 6, 10, 15, 21, 6, 10, 15, 21]"

definition rotl32 :: "nat \<Rightarrow> u32 \<Rightarrow> u32" where
  "rotl32 n x = (push_bit n x) OR (drop_bit (32 - n) x)"

definition md5_round :: "u32 list \<Rightarrow> md5_state \<Rightarrow> nat \<Rightarrow> md5_state" where
  "md5_round M st i = (case st of (a, b, c, d) \<Rightarrow>
     let (f, g) =
          (if i < 16 then ((b AND c) OR ((NOT b) AND d), i)
           else if i < 32 then ((d AND b) OR ((NOT d) AND c), (5 * i + 1) mod 16)
           else if i < 48 then (b XOR c XOR d, (3 * i + 5) mod 16)
           else (c XOR (b OR (NOT d)), (7 * i) mod 16));
         f' = f + a + md5_K ! i + M ! g
     in (d, b + rotl32 (md5_S ! i) f', b, c))"

fun le_word :: "byte list \<Rightarrow> u32" where
  "le_word [] = 0"
| "le_word (b # bs) = ucast b OR push_bit 8 (le_word bs)"

fun chunk_words :: "nat \<Rightarrow> byte list \<Rightarrow> u32 list" where
  "chunk_words 0 bs = []"
| "chunk_words (Suc n) bs = le_word (take 4 bs) # chunk_words n (drop 4 bs)"

definition md5_chunk :: "md5_state \<Rightarrow> byte list \<Rightarrow> md5_state" where
  "md5_chunk st bs = (case st of (a0, b0, c0, d0) \<Rightarrow>
     case foldl (md5_round (chunk_words 16 bs)) st [0..<64] of (a, b, c, d) \<Rightarrow>
       (a0 + a, b0 + b, c0 + c, d0 + d))"

fun le_bytes :: "nat \<Rightarrow> nat \<Rightarrow> byte list" where
  "le_bytes 0 v = []"
| "le_bytes (Suc n) v = of_nat (v mod 256) # le_bytes n (v div 256)"

definition md5_pad :: "byte list \<Rightarrow> byte list" where
  "md5_pad bs =
     bs @ [0x80] @ replicate ((119 - length bs mod 64) mod 64) 0 @ le_bytes 8 (8 * length bs)"

fun md5_chunks :: "nat \<Rightarrow> md5_state \<Rightarrow> byte list \<Rightarrow> md5_state" where
  "md5_chunks 0 st bs = st"
| "md5_chunks (Suc n) st bs = md5_chunks n (md5_chunk st (take 64 bs)) (drop 64 bs)"

definition hex_digit :: "nat \<Rightarrow> char" where
  "hex_digit n = ''0123456789abcdef'' ! (n mod 16)"

definition hex_byte :: "nat \<Rightarrow> string" where
  "hex_byte n = [hex_digit (n div 16), hex_digit n]"

definition hex_word_le :: "u32 \<Rightarrow> string" where
  "hex_word_le w = concat (map (\<lambda>k. hex_byte (unat (drop_bit (8 * k) w AND 0xFF))) [0..<4])"

definition md5_hex :: "string \<Rightarrow> string" where
  "md5_hex s = (let bs = md5_pad (map (\<lambda>c. of_nat (of_char c)) s) in
     case md5_chunks (length bs div 64) (0x67452301, 0xefcdab89, 0x98badcfe, 0x10325476) bs of
       (a, b, c, d) \<Rightarrow> hex_word_le a @ hex_word_le b @ hex_word_le c @ hex_word_le d)"

section \<open>Cache key (the webhook handler)\<close>

text \<open>
  \<^verbatim>\<open>
  const responseHash = crypto.createHash('md5').update(latestResponse.text)
                             .digest('hex').substring(0, 8);
  const cacheKey = `${ticket.id}_${responseHash}`;
  \<close>
  The ticket id is the number the webhook schema requires (Help Scout ids are integers,
  rendered in decimal) or, in the ledger lookup, possibly its string form.
\<close>

datatype js_id = NumId int | StrId string

fun String_id :: "js_id \<Rightarrow> string" where
  "String_id (NumId n) = show_int n"
| "String_id (StrId s) = s"

definition responseHash :: "string \<Rightarrow> string" where
  "responseHash response_text = take 8 (md5_hex response_text)"

definition deriveKey :: "js_id \<Rightarrow> string \<Rightarrow> string" where
  "deriveKey tid response_text = String_id tid @ ''_'' @ responseHash response_text"

section \<open>Signature verifier (\<open>validateHelpScoutSignature\<close>)\<close>

text \<open>
  The environment variables the verifier reads and the two parts of the request it
  looks at. A variable or header that is not set is \<open>None\<close>; JavaScript treats the empty
  string as absent too (\<open>!secret\<close>, \<open>a || b\<close>).
\<close>

record verifier_env =
  DISABLE_SIGNATURE_VALIDATION :: "string option"
  HELPSCOUT_DYNAMIC_WIDGET_SECRET_KEY :: "string option"
  HELPSCOUT_APP_SECRET :: "string option"

record signed_request =
  x_helpscout_signature :: "string option"
  rawBody :: "string option"

fun truthy :: "string option \<Rightarrow> bool" where
  "truthy None = False"
| "truthy (Some s) = (s \<noteq> [])"

definition js_or :: "string option \<Rightarrow> string option \<Rightarrow> string option" where
  "js_or a b = (if truthy a then a else b)"

text \<open>
  \<open>crypto.timingSafeEqual\<close> throws a \<open>RangeError\<close> on buffers of different lengths and
  otherwise says whether they are equal.
\<close>

datatype crypto_error = RangeError

definition timingSafeEqual :: "string \<Rightarrow> string \<Rightarrow> crypto_error + bool" where
  "timingSafeEqual a b = (if length a \<noteq> length b then Inl RangeError else Inr (a = b))"

text \<open>
  The path a call takes, one constructor per \<open>return\<close> of the source (each of them writes
  its own log line). \<open>Compared\<close> is the only path on which \<open>timingSafeEqual\<close> has been
  called and has returned; \<open>Caught\<close> is the \<open>catch\<close> block.
  The HMAC itself, \<open>createHmac('sha1', secret).update(rawBody).digest('base64')\<close>, belongs
  to the \<open>crypto\<close> library and is the parameter \<open>hmac\<close> (secret first, then body).
\<close>

datatype signature_path =
    ValidationDisabled
  | SecretNotConfigured
  | HeaderMissing
  | LengthMismatch
  | Compared bool
  | Caught crypto_error

definition signaturePath ::
  "(string \<Rightarrow> string \<Rightarrow> string) \<Rightarrow> verifier_env \<Rightarrow> signed_request \<Rightarrow> signature_path" where
  "signaturePath hmac env req =
     (if DISABLE_SIGNATURE_VALIDATION env = Some ''true'' then ValidationDisabled
      else
        let signature = x_helpscout_signature req;
            secret = js_or (HELPSCOUT_DYNAMIC_WIDGET_SECRET_KEY env) (HELPSCOUT_APP_SECRET env)
        in if \<not> truthy secret then SecretNotConfigured
           else if \<not> truthy signature then HeaderMissing
           else
             let body = (if truthy (rawBody req) then the (rawBody req) else []);
                 computedSignature = hmac (the secret) body
             in if length (the signature) \<noteq> length computedSignature then LengthMismatch
                else (case timingSafeEqual (the signature) computedSignature of
                        Inl e \<Rightarrow> Caught e
                      | Inr isValid \<Rightarrow> Compared isValid))"

definition validateHelpScoutSignature ::
  "(string \<Rightarrow> string \<Rightarrow> string) \<Rightarrow> verifier_env \<Rightarrow> signed_request \<Rightarrow> bool" where
  "validateHelpScoutSignature hmac env req =
     (case signaturePath hmac env req of
        ValidationDisabled \<Rightarrow> True
      | Compared isValid \<Rightarrow> isValid
      | _ \<Rightarrow> False)"

section \<open>Data model\<close>

text \<open>
  An evaluation as the engine's schema, the synthetic error result and the ledger lookup
  all shape it: an overall score, the four fixed categories, each with a score and a
  feedback text, the list of improvements, and the \<open>error\<close> text that only a failed
  evaluation carries. A score is a JSON number: a rational.
\<close>

record category =
  score :: rat
  feedback :: string

record category_set =
  tone_empathy :: category
  clarity_completeness :: category
  standard_of_english :: category
  problem_resolution :: category

record evaluation =
  overall_score :: rat
  categories :: category_set
  key_improvements :: "string list"
  error :: "string option"

text \<open>A value written into a cell of the ledger: a number, a string, or nothing.\<close>

datatype cell = CNum rat | CStr string | CNull

record ticket =
  ticket_id :: js_id
  ticket_number :: cell
  tags :: "string list option"
  subject :: "string option"

record agent =
  agent_id :: cell
  agent_name :: string

record response =
  response_text :: string
  agent :: "agent option"

section \<open>Context classifier (\<open>getContextNote\<close>)\<close>

text \<open>
  \<open>config/ticket-classification.json\<close> is not among the sources; its seven entries are
  the fields of the parameter \<open>config\<close>.
\<close>

record classification =
  services_keywords :: "string list"
  services_context_note :: string
  presales_keywords :: "string list"
  presales_subject_keywords :: "string list"
  presales_context_note :: string
  investigating_phrases :: "string list"
  investigating_context_note :: string

definition ticket_tags :: "ticket \<Rightarrow> string list" where
  "ticket_tags ticketData = (case tags ticketData of None \<Rightarrow> [] | Some ts \<Rightarrow> ts)"

definition isServicesTicket :: "classification \<Rightarrow> ticket \<Rightarrow> bool" where
  "isServicesTicket config ticketData =
     list_ex (\<lambda>tag. list_ex (\<lambda>keyword. js_includes (toLowerCase tag) keyword)
                (services_keywords config))
       (ticket_tags ticketData)"

definition isPresalesTicket :: "classification \<Rightarrow> ticket \<Rightarrow> bool" where
  "isPresalesTicket config ticketData =
     (list_ex (\<lambda>tag. list_ex (\<lambda>keyword. js_includes (toLowerCase tag) keyword)
                 (presales_keywords config))
        (ticket_tags ticketData)
      \<or> (truthy (subject ticketData)
          \<and> list_ex (\<lambda>keyword. js_includes (toLowerCase (the (subject ticketData))) keyword)
                (presales_subject_keywords config)))"

definition isInvestigating :: "classification \<Rightarrow> string \<Rightarrow> bool" where
  "isInvestigating config cleanText =
     list_ex (\<lambda>phrase. js_includes (toLowerCase cleanText) (toLowerCase phrase))
       (investigating_phrases config)"

definition getContextNote :: "classification \<Rightarrow> ticket \<Rightarrow> string \<Rightarrow> string" where
  "getContextNote config ticketData cleanText =
     (if isServicesTicket config ticketData then services_context_note config
      else if isPresalesTicket config ticketData then presales_context_note config
      else if isInvestigating config cleanText then investigating_context_note config
      else [])"

text \<open>
  The classifier as the specification words it: each rule is a containment test that
  ignores case on both sides.
\<close>

definition contains_ci :: "string \<Rightarrow> string \<Rightarrow> bool" where
  "contains_ci hay needle = js_includes (toLowerCase hay) (toLowerCase needle)"

definition services_rule :: "classification \<Rightarrow> string list \<Rightarrow> bool" where
  "services_rule config ts =
     (\<exists>tag \<in> set ts. \<exists>keyword \<in> set (services_keywords config). contains_ci tag keyword)"

definition presales_rule :: "classification \<Rightarrow> string list \<Rightarrow> string \<Rightarrow> bool" where
  "presales_rule config ts subj =
     ((\<exists>tag \<in> set ts. \<exists>keyword \<in> set (presales_keywords config). contains_ci tag keyword)
      \<or> (\<exists>keyword \<in> set (presales_subject_keywords config). contains_ci subj keyword))"

definition investigating_rule :: "classification \<Rightarrow> string \<Rightarrow> bool" where
  "investigating_rule config txt =
     (\<exists>phrase \<in> set (investigating_phrases config). contains_ci txt phrase)"

definition lower_case_keywords :: "classification \<Rightarrow> bool" where
  "lower_case_keywords config =
     (list_all (\<lambda>k. toLowerCase k = k) (services_keywords config)
      \<and> list_all (\<lambda>k. toLowerCase k = k) (presales_keywords config)
      \<and> list_all (\<lambda>k. toLowerCase k = k \<and> k \<noteq> []) (presales_subject_keywords config))"

section \<open>Result post-processor (\<open>validateEvaluation\<close>)\<close>

definition keep_improvement :: "string \<Rightarrow> bool" where
  "keep_improvement imp =
     (if imp = [] \<or> length imp < 5 then False
      else if js_includes (toLowerCase imp) ''continue'' \<and> js_includes (toLowerCase imp) ''good''
        then False
      else if toLowerCase imp = ''no recommendations'' then False
      else True)"

definition fix_contradiction :: "evaluation \<Rightarrow> evaluation" where
  "fix_contradiction evaluation =
     (let clarityFeedback = feedback (clarity_completeness (categories evaluation));
          resolutionFeedback = feedback (problem_resolution (categories evaluation))
      in if js_includes (toLowerCase clarityFeedback) ''concise''
            \<and> js_includes (toLowerCase resolutionFeedback) ''more detail''
         then evaluation\<lparr>categories := (categories evaluation)
                \<lparr>problem_resolution := (problem_resolution (categories evaluation))
                   \<lparr>feedback := trim (remove_all_ci ''provide more detail'' resolutionFeedback)\<rparr>\<rparr>\<rparr>
         else evaluation)"

definition adjust_services_tone :: "classification \<Rightarrow> ticket \<Rightarrow> evaluation \<Rightarrow> evaluation" where
  "adjust_services_tone config ticketData evaluation =
     (if isServicesTicket config ticketData
      then evaluation\<lparr>categories := (categories evaluation)
             \<lparr>tone_empathy :=
                \<lparr>score = max (score (tone_empathy (categories evaluation))) 7,
                 feedback = ''Services team communication - standard tone requirements adjusted''\<rparr>\<rparr>\<rparr>
      else evaluation)"

definition clean_improvements :: "evaluation \<Rightarrow> evaluation" where
  "clean_improvements evaluation =
     (let kept = filter keep_improvement (key_improvements evaluation)
      in evaluation\<lparr>key_improvements := (if kept = [] then [''No recommendations''] else kept)\<rparr>)"

definition validateEvaluation ::
  "classification \<Rightarrow> evaluation \<Rightarrow> string \<Rightarrow> ticket \<Rightarrow> evaluation" where
  "validateEvaluation config evaluation responseText ticketData =
     clean_improvements (adjust_services_tone config ticketData (fix_contradiction evaluation))"

section \<open>Evaluation (\<open>evaluateResponse\<close>)\<close>

text \<open>
  The evaluation engine is an opaque collaborator: what the HTTP call and the parsing of
  its answer give is the \<open>engine_outcome\<close>, either the evaluation the engine returned or
  the error that was thrown, with the two texts the \<open>catch\<close> block reads from it
  (\<open>error.response?.data?.error?.message\<close> and \<open>error.message\<close>). The prompt that
  \<open>evaluateResponse\<close> builds from the context note, the conversation and the response
  text goes to the engine only, and the request parameters with it.
\<close>

record engine_failure =
  api_error_message :: "string option"
  message :: string

datatype engine_outcome = EngineOk evaluation | EngineFail engine_failure

record openai_env =
  OPENAI_API_KEY :: "string option"
  OPENAI_MODEL :: "string option"
  config_model :: string

definition isGPT5 :: "string \<Rightarrow> bool" where
  "isGPT5 model = (startsWith model ''gpt-5'' \<or> startsWith model ''o1'' \<or> startsWith model ''o3'')"

definition unable :: category where
  "unable = \<lparr>score = 0, feedback = ''Unable to evaluate - API error''\<rparr>"

definition errorResult :: "engine_failure \<Rightarrow> evaluation" where
  "errorResult e =
     \<lparr>overall_score = 0,
      categories = \<lparr>tone_empathy = unable, clarity_completeness = unable,
                    standard_of_english = unable, problem_resolution = unable\<rparr>,
      key_improvements = [''OpenAI API error occurred - check logs for details''],
      error = js_or (api_error_message e) (Some (message e))\<rparr>"

definition evaluateResponse ::
  "classification \<Rightarrow> openai_env \<Rightarrow> string \<Rightarrow> ticket \<Rightarrow> engine_outcome \<Rightarrow> evaluation" where
  "evaluateResponse config env cleanText ticketData outcome =
     (if \<not> truthy (OPENAI_API_KEY env)
      then errorResult \<lparr>api_error_message = None, message = ''OpenAI API key is missing''\<rparr>
      else
        let model = (if truthy (OPENAI_MODEL env) then the (OPENAI_MODEL env) else config_model env)
        in case outcome of
             EngineFail e \<Rightarrow> errorResult e
           | EngineOk evaluation \<Rightarrow>
               if isGPT5 model then evaluation
               else validateEvaluation config evaluation cleanText ticketData)"

definition scores_all_zero :: "evaluation \<Rightarrow> bool" where
  "scores_all_zero ev =
     list_all (\<lambda>c. score c = 0)
       [tone_empathy (categories ev), clarity_completeness (categories ev),
        standard_of_english (categories ev), problem_resolution (categories ev)]"

definition scores_in_range :: "evaluation \<Rightarrow> bool" where
  "scores_in_range ev =
     list_all (\<lambda>c. 1 \<le> score c \<and> score c \<le> 10)
       [tone_empathy (categories ev), clarity_completeness (categories ev),
        standard_of_english (categories ev), problem_resolution (categories ev)]"

section \<open>Ledger (\<open>saveToGoogleSheets\<close>, \<open>checkGoogleSheets\<close>)\<close>

text \<open>
  A point in time, with the fields \<open>Date.prototype.toISOString\<close> prints:
  \<open>YYYY-MM-DDTHH:mm:ss.sssZ\<close>.
\<close>

record instant =
  year :: nat
  month :: nat
  day :: nat
  hour :: nat
  minute :: nat
  second :: nat
  millisecond :: nat

definition pad :: "nat \<Rightarrow> string \<Rightarrow> string" where
  "pad n s = replicate (n - length s) CHR ''0'' @ s"

definition iso_date :: "instant \<Rightarrow> string" where
  "iso_date t = pad 4 (show_nat (year t)) @ ''-'' @ pad 2 (show_nat (month t)) @ ''-''
                @ pad 2 (show_nat (day t))"

definition iso_time :: "instant \<Rightarrow> string" where
  "iso_time t = pad 2 (show_nat (hour t)) @ '':'' @ pad 2 (show_nat (minute t)) @ '':''
                @ pad 2 (show_nat (second t)) @ ''.'' @ pad 3 (show_nat (millisecond t)) @ ''Z''"

definition toISOString :: "instant \<Rightarrow> string" where
  "toISOString t = iso_date t @ ''T'' @ iso_time t"

definition same_calendar_day :: "instant \<Rightarrow> instant \<Rightarrow> bool" where
  "same_calendar_day t u = (year t = year u \<and> month t = month u \<and> day t = day u)"

text \<open>The sixteen values \<open>saveToGoogleSheets\<close> puts into \<open>rowData\<close>, in its order.\<close>

definition id_cell :: "js_id \<Rightarrow> cell" where
  "id_cell i = (case i of NumId n \<Rightarrow> CNum (of_int n) | StrId s \<Rightarrow> CStr s)"

definition rowData :: "instant \<Rightarrow> ticket \<Rightarrow> agent \<Rightarrow> response \<Rightarrow> evaluation \<Rightarrow> cell list" where
  "rowData now tk ag resp ev =
     [CStr (toISOString now),
      id_cell (ticket_id tk),
      agent_id ag,
      CStr (agent_name ag),
      CNum (overall_score ev),
      CNum (score (tone_empathy (categories ev))),
      CNum (score (clarity_completeness (categories ev))),
      CNum (score (standard_of_english (categories ev))),
      CNum (score (problem_resolution (categories ev))),
      CStr (join ''; '' (key_improvements ev)),
      CStr (response_text resp),
      ticket_number tk,
      CStr (feedback (tone_empathy (categories ev))),
      CStr (feedback (clarity_completeness (categories ev))),
      CStr (feedback (standard_of_english (categories ev))),
      CStr (feedback (problem_resolution (categories ev)))]"

text \<open>
  The spreadsheet is an external store. It is modelled as the list of its rows, oldest
  first; \<open>values.get\<close> returns every cell as text, which is what the lookup's
  \<open>split\<close>, \<open>parseFloat\<close> and \<open>String\<close> work on. A string is stored as it is
  (\<open>valueInputOption: 'RAW'\<close>); how the store prints a number is its own affair: the
  parameter \<open>fmt\<close>.
\<close>

type_synonym sheet = "string list list"

definition sheet_cell :: "(rat \<Rightarrow> string) \<Rightarrow> cell \<Rightarrow> string" where
  "sheet_cell fmt c = (case c of CNum x \<Rightarrow> fmt x | CStr s \<Rightarrow> s | CNull \<Rightarrow> [])"

text \<open>
  \<open>saveToGoogleSheets\<close>: one row appended. A failure (no agent on the response, or the
  store rejecting the call: \<open>append_ok\<close> false) is logged and swallowed, and the rows
  stay as they were.
\<close>

definition saveToGoogleSheets ::
  "(rat \<Rightarrow> string) \<Rightarrow> bool \<Rightarrow> instant \<Rightarrow> ticket \<Rightarrow> response \<Rightarrow> evaluation \<Rightarrow> sheet \<Rightarrow> sheet" where
  "saveToGoogleSheets fmt append_ok now tk resp ev rows =
     (case agent resp of
        None \<Rightarrow> rows
      | Some ag \<Rightarrow>
          if append_ok then rows @ [map (sheet_cell fmt) (rowData now tk ag resp ev)] else rows)"

text \<open>
  \<open>row[i]\<close> is \<open>undefined\<close> (here \<open>None\<close>) past the end of the row. \<open>parseFloat\<close> on
  a string is JavaScript's own: the parameter \<open>pf\<close>, with \<open>None\<close> for \<open>NaN\<close>.
\<close>

definition row_at :: "string list \<Rightarrow> nat \<Rightarrow> string option" where
  "row_at row i = (if i < length row then Some (row ! i) else None)"

definition String_cell :: "string option \<Rightarrow> string" where
  "String_cell c = (case c of None \<Rightarrow> ''undefined'' | Some s \<Rightarrow> s)"

definition rowDate :: "string list \<Rightarrow> string option" where
  "rowDate row = (if truthy (row_at row 0) then Some (hd (split ''T'' (the (row_at row 0)))) else None)"

definition number_or_0 :: "(string \<Rightarrow> rat option) \<Rightarrow> string option \<Rightarrow> rat" where
  "number_or_0 pf c =
     (case c of None \<Rightarrow> 0 | Some s \<Rightarrow> (case pf s of None \<Rightarrow> 0 | Some x \<Rightarrow> x))"

definition string_or_empty :: "string option \<Rightarrow> string" where
  "string_or_empty c = (if truthy c then the c else [])"

definition row_evaluation :: "(string \<Rightarrow> rat option) \<Rightarrow> string list \<Rightarrow> evaluation" where
  "row_evaluation pf row =
     \<lparr>overall_score = number_or_0 pf (row_at row 4),
      categories =
        \<lparr>tone_empathy =
           \<lparr>score = number_or_0 pf (row_at row 5), feedback = string_or_empty (row_at row 12)\<rparr>,
         clarity_completeness =
           \<lparr>score = number_or_0 pf (row_at row 6), feedback = string_or_empty (row_at row 13)\<rparr>,
         standard_of_english =
           \<lparr>score = number_or_0 pf (row_at row 7), feedback = string_or_empty (row_at row 14)\<rparr>,
         problem_resolution =
           \<lparr>score = number_or_0 pf (row_at row 8), feedback = string_or_empty (row_at row 15)\<rparr>\<rparr>,
      key_improvements =
        filter (\<lambda>x. x \<noteq> []) (split ''; '' (string_or_empty (row_at row 9))),
      error = None\<rparr>"

text \<open>The \<open>for\<close> loop, from the last row down to the first.\<close>

fun scan_rows ::
  "(string \<Rightarrow> rat option) \<Rightarrow> js_id \<Rightarrow> string \<Rightarrow> string list list \<Rightarrow> evaluation option" where
  "scan_rows pf ticketId today [] = None"
| "scan_rows pf ticketId today (row # earlier) =
     (if String_cell (row_at row 1) = String_id ticketId \<and> rowDate row = Some today
      then Some (row_evaluation pf row)
      else scan_rows pf ticketId today earlier)"

text \<open>
  \<open>checkGoogleSheets\<close>. The client is \<open>None\<close> when the integration is not configured;
  a request the store fails (\<open>fetch_ok\<close> false) ends in the \<open>catch\<close> block. Both give
  \<open>null\<close>, as does a ledger without a matching row.
\<close>

definition checkGoogleSheets ::
  "(string \<Rightarrow> rat option) \<Rightarrow> js_id \<Rightarrow> sheet option \<Rightarrow> bool \<Rightarrow> instant \<Rightarrow> evaluation option" where
  "checkGoogleSheets pf ticketId googleSheets fetch_ok now =
     (case googleSheets of
        None \<Rightarrow> None
      | Some rows \<Rightarrow>
          if fetch_ok
          then scan_rows pf ticketId (hd (split ''T'' (toISOString now))) (rev rows)
          else None)"

section \<open>Orchestrator (\<open>process\<close>, \<open>evaluateInBackground\<close>)\<close>

text \<open>
  What a call of \<open>process\<close> returns: the rendered scorecard, the error block that
  \<open>renderEvaluation\<close> shows for an evaluation with an \<open>error\<close>, or the processing
  placeholder. The HTML templates themselves are out of scope.
\<close>

datatype html = EvaluationHtml evaluation | ErrorHtml string | ProcessingHtml

definition renderEvaluation :: "evaluation \<Rightarrow> html" where
  "renderEvaluation ev = (if truthy (error ev) then ErrorHtml (the (error ev)) else EvaluationHtml ev)"

text \<open>
  \<open>renderEvaluation\<close> on what \<open>cache.get\<close> returned. On \<open>undefined\<close> the property
  access throws inside its \<open>try\<close> block, and the \<open>catch\<close> block renders the error
  template with a fixed message.
\<close>

definition renderCached :: "evaluation option \<Rightarrow> html" where
  "renderCached got =
     (case got of
        Some ev \<Rightarrow> renderEvaluation ev
      | None \<Rightarrow> ErrorHtml ''Unable to display evaluation results. Please refresh the page.'')"

text \<open>
  The memory cache. The server builds it as
  \<^verbatim>\<open>new LRUCache({ max: 500, ttl: 1000 * 60 * 60 * 24, updateAgeOnGet: true, updateAgeOnHas: false })\<close>.
  The \<open>lru-cache\<close> package is not among the sources; the three methods \<open>process\<close> and
  \<open>evaluateInBackground\<close> call are written down as the package documents them for
  these options. The cache is the list of its entries, the most recently used first,
  each with its value and the time (in milliseconds) its age counts from.
  \<^item> \<open>has\<close>: the key is there and its entry is not older than the \<open>ttl\<close>; nothing
    changes.
  \<^item> \<open>get\<close>: an entry older than the \<open>ttl\<close> is deleted and \<open>undefined\<close> returned;
    otherwise the entry becomes the most recently used, its age starts anew, and its value
    is returned.
  \<^item> \<open>set\<close>: the entry becomes the most recently used and its age starts anew; when the
    key is new and the cache is full, the least recently used entry is dropped first.
\<close>

type_synonym lru_cache = "(string \<times> evaluation \<times> int) list"

definition cache_max :: nat where
  "cache_max = 500"

definition cache_ttl :: int where
  "cache_ttl = 1000 * 60 * 60 * 24"

definition is_stale :: "int \<Rightarrow> int \<Rightarrow> bool" where
  "is_stale now start = (now - start > cache_ttl)"

definition cache_delete :: "lru_cache \<Rightarrow> string \<Rightarrow> lru_cache" where
  "cache_delete c k = filter (\<lambda>e. fst e \<noteq> k) c"

definition cache_has :: "lru_cache \<Rightarrow> int \<Rightarrow> string \<Rightarrow> bool" where
  "cache_has c now k =
     (case map_of c k of None \<Rightarrow> False | Some (v, start) \<Rightarrow> \<not> is_stale now start)"

definition cache_get :: "lru_cache \<Rightarrow> int \<Rightarrow> string \<Rightarrow> evaluation option \<times> lru_cache" where
  "cache_get c now k =
     (case map_of c k of
        None \<Rightarrow> (None, c)
      | Some (v, start) \<Rightarrow>
          if is_stale now start then (None, cache_delete c k)
          else (Some v, (k, v, now) # cache_delete c k))"

definition cache_set :: "lru_cache \<Rightarrow> int \<Rightarrow> string \<Rightarrow> evaluation \<Rightarrow> lru_cache" where
  "cache_set c now k v =
     (if map_of c k \<noteq> None then (k, v, now) # cache_delete c k
      else if cache_max \<le> length c then (k, v, now) # butlast c
      else (k, v, now) # c)"

text \<open>
  The \<open>data\<close> object of one request. Its \<open>cache\<close>, \<open>runningEvaluations\<close> and
  \<open>googleSheets\<close> are the process-wide objects of the server, shared by all requests:
  they are fields of the state below.
\<close>

record request =
  ticket :: ticket
  response :: response
  cacheKey :: string

record pending_save =
  save_request :: request
  save_evaluation :: evaluation
  save_time :: instant

text \<open>
  The server's state at a point where no JavaScript is running. The node process runs
  one piece of code at a time, from one \<open>await\<close> to the next; a call suspended at an
  \<open>await\<close> waits in one of three queues:
  \<^item> \<open>awaiting_lookup\<close>: calls of \<open>process\<close> at \<open>await this.checkGoogleSheets(...)\<close>;
  \<^item> \<open>awaiting_engine\<close>: background evaluations at the engine's HTTP call;
  \<^item> \<open>awaiting_save\<close>: background evaluations at \<open>await this.saveToGoogleSheets(...)\<close>.
  \<open>replies\<close> lists what the calls of \<open>process\<close> have returned so far, and \<open>clock\<close> is
  the time in milliseconds since the server started.
\<close>

record state =
  cache :: lru_cache
  clock :: int
  runningEvaluations :: "string set"
  googleSheets :: "sheet option"
  awaiting_lookup :: "request list"
  awaiting_engine :: "request list"
  awaiting_save :: "pending_save list"
  replies :: "html list"

record system =
  ticketClassification :: classification
  openai :: openai_env
  decodeHtml :: "string \<Rightarrow> string"
  number_format :: "rat \<Rightarrow> string"
  parseFloat :: "string \<Rightarrow> rat option"

definition initial_state :: "sheet option \<Rightarrow> state" where
  "initial_state sheets =
     \<lparr>cache = [], clock = 0, runningEvaluations = {}, googleSheets = sheets,
      awaiting_lookup = [], awaiting_engine = [], awaiting_save = [], replies = []\<rparr>"

definition without :: "nat \<Rightarrow> 'a list \<Rightarrow> 'a list" where
  "without i xs = take i xs @ drop (Suc i) xs"

text \<open>\<open>process\<close>, from its call to \<open>await this.checkGoogleSheets\<close> (or to its return).\<close>

definition process_call :: "request \<Rightarrow> state \<Rightarrow> state" where
  "process_call data s =
     (if cache_has (cache s) (clock s) (cacheKey data)
      then case cache_get (cache s) (clock s) (cacheKey data) of
             (cachedEvaluation, c) \<Rightarrow>
               s\<lparr>cache := c, replies := replies s @ [renderCached cachedEvaluation]\<rparr>
      else if cacheKey data \<in> runningEvaluations s
        then s\<lparr>replies := replies s @ [ProcessingHtml]\<rparr>
        else s\<lparr>awaiting_lookup := awaiting_lookup s @ [data]\<rparr>)"

text \<open>
  \<open>process\<close>, from the answer of the ledger lookup to its return. In the second case the
  background evaluation is started: its engine call is now in flight.
\<close>

definition process_resume :: "request \<Rightarrow> evaluation option \<Rightarrow> state \<Rightarrow> state" where
  "process_resume data sheetsEvaluation s =
     (case sheetsEvaluation of
        Some ev \<Rightarrow>
          s\<lparr>cache := cache_set (cache s) (clock s) (cacheKey data) ev,
            replies := replies s @ [renderEvaluation ev]\<rparr>
      | None \<Rightarrow>
          s\<lparr>runningEvaluations := insert (cacheKey data) (runningEvaluations s),
            awaiting_engine := awaiting_engine s @ [data],
            replies := replies s @ [ProcessingHtml]\<rparr>)"

text \<open>
  \<open>evaluateInBackground\<close>, from the engine's answer on: the result is cached, and the
  row is saved if there is a ledger and an agent. Without a save the function is over
  and the \<open>finally\<close> handler removes the key at once.
\<close>

definition background_result :: "system \<Rightarrow> request \<Rightarrow> engine_outcome \<Rightarrow> instant \<Rightarrow> state \<Rightarrow> state" where
  "background_result sys data outcome now s =
     (let cleanText = decodeHtml sys (response_text (response data));
          ev = evaluateResponse (ticketClassification sys) (openai sys) cleanText (ticket data) outcome;
          s1 = s\<lparr>cache := cache_set (cache s) (clock s) (cacheKey data) ev\<rparr>
      in if googleSheets s1 \<noteq> None \<and> agent (response data) \<noteq> None
         then s1\<lparr>awaiting_save := awaiting_save s1
                   @ [\<lparr>save_request = data, save_evaluation = ev, save_time = now\<rparr>]\<rparr>
         else s1\<lparr>runningEvaluations := runningEvaluations s1 - {cacheKey data}\<rparr>)"

text \<open>The save settles (it may have failed), and the \<open>finally\<close> handler removes the key.\<close>

definition background_saved :: "system \<Rightarrow> pending_save \<Rightarrow> bool \<Rightarrow> state \<Rightarrow> state" where
  "background_saved sys p append_ok s =
     s\<lparr>googleSheets :=
         map_option
           (saveToGoogleSheets (number_format sys) append_ok (save_time p)
              (ticket (save_request p)) (response (save_request p)) (save_evaluation p))
           (googleSheets s),
       runningEvaluations := runningEvaluations s - {cacheKey (save_request p)}\<rparr>"

text \<open>
  What can happen next: a request arrives; the ledger lookup of the \<open>i\<close>-th waiting call
  returns; the engine call of the \<open>i\<close>-th background evaluation returns; the save of the
  \<open>i\<close>-th returns; a number of milliseconds pass. An index that names no waiting call
  is no event at all, and neither is a negative time.
\<close>

datatype event =
    Call request
  | LookupReturns nat bool instant
  | EngineReturns nat engine_outcome instant
  | SaveReturns nat bool
  | TimePasses int

fun step :: "system \<Rightarrow> event \<Rightarrow> state \<Rightarrow> state" where
  "step sys (Call data) s = process_call data s"
| "step sys (LookupReturns i fetch_ok now) s =
     (if i < length (awaiting_lookup s)
      then let data = awaiting_lookup s ! i
           in process_resume data
                (checkGoogleSheets (parseFloat sys) (ticket_id (ticket data)) (googleSheets s) fetch_ok now)
                (s\<lparr>awaiting_lookup := without i (awaiting_lookup s)\<rparr>)
      else s)"
| "step sys (EngineReturns i outcome now) s =
     (if i < length (awaiting_engine s)
      then background_result sys (awaiting_engine s ! i) outcome now
             (s\<lparr>awaiting_engine := without i (awaiting_engine s)\<rparr>)
      else s)"
| "step sys (SaveReturns i append_ok) s =
     (if i < length (awaiting_save s)
      then background_saved sys (awaiting_save s ! i) append_ok
             (s\<lparr>awaiting_save := without i (awaiting_save s)\<rparr>)
      else s)"
| "step sys (TimePasses ms) s = (if 0 \<le> ms then s\<lparr>clock := clock s + ms\<rparr> else s)"

definition exec :: "system \<Rightarrow> event list \<Rightarrow> state \<Rightarrow> state" where
  "exec sys es s = foldl (\<lambda>s e. step sys e s) s es"







text \<open>The background evaluations for a key that have been started and have not finished.\<close>

definition in_flight :: "state \<Rightarrow> string \<Rightarrow> nat" where
  "in_flight s k =
     length (filter (\<lambda>d. cacheKey d = k) (awaiting_engine s))
     + length (filter (\<lambda>p. cacheKey (save_request p) = k) (awaiting_save s))"

text \<open>
  A run without overlap at the ledger lookup: every call of \<open>process\<close> gets the answer of
  its lookup and returns before the next thing happens (a call that returns at once has
  no lookup to wait for, and the index names no waiting call).
\<close>

definition process_uninterrupted :: "system \<Rightarrow> request \<Rightarrow> bool \<Rightarrow> instant \<Rightarrow> state \<Rightarrow> state" where
  "process_uninterrupted sys data fetch_ok now s =
     step sys (LookupReturns (length (awaiting_lookup s)) fetch_ok now) (step sys (Call data) s)"

datatype serial_event =
    Request request bool instant
  | EngineAnswer nat engine_outcome instant
  | SaveAnswer nat bool
  | Pause int

fun serial_step :: "system \<Rightarrow> serial_event \<Rightarrow> state \<Rightarrow> state" where
  "serial_step sys (Request data fetch_ok now) s = process_uninterrupted sys data fetch_ok now s"
| "serial_step sys (EngineAnswer i outcome now) s = step sys (EngineReturns i outcome now) s"
| "serial_step sys (SaveAnswer i append_ok) s = step sys (SaveReturns i append_ok) s"
| "serial_step sys (Pause ms) s = step sys (TimePasses ms) s"

definition serial_exec :: "system \<Rightarrow> serial_event list \<Rightarrow> state \<Rightarrow> state" where
  "serial_exec sys es s = foldl (\<lambda>s e. serial_step sys e s) s es"

text \<open>
  At most one background evaluation per key is in flight, and its key is in
  \<open>runningEvaluations\<close>.
\<close>

definition single_flight :: "state \<Rightarrow> bool" where
  "single_flight s =
     (\<forall>k. in_flight s k \<le> 1 \<and> (in_flight s k = 1 \<longrightarrow> k \<in> runningEvaluations s))"

section \<open>Sample inputs\<close>

text \<open>
  Concrete inputs on which the theorems below are run. The classification lists stand in
  for the configuration file; the environment is the one of \<open>tests/setup.js\<close>; the
  evaluation is the example of \<open>prompts/evaluation.md\<close>, cut to the four categories.
\<close>

definition sample_classification :: classification where
  "sample_classification =
     \<lparr>services_keywords = [''services'', ''custom-dev''],
      services_context_note = ''NOTE: services ticket'',
      presales_keywords = [''presales'', ''pre-sales''],
      presales_subject_keywords = [''pricing'', ''license''],
      presales_context_note = ''NOTE: presales ticket'',
      investigating_phrases = [''Looking into'', ''investigating''],
      investigating_context_note = ''NOTE: investigation in progress''\<rparr>"

definition sample_openai_env :: openai_env where
  "sample_openai_env =
     \<lparr>OPENAI_API_KEY = Some ''test-key'', OPENAI_MODEL = Some ''gpt-4'', config_model = ''gpt-4''\<rparr>"

definition sample_ticket :: ticket where
  "sample_ticket =
     \<lparr>ticket_id = NumId 123456, ticket_number = CNum 789, tags = Some [''Billing'', ''Services''],
      subject = Some ''Test ticket''\<rparr>"

definition plain_ticket :: ticket where
  "plain_ticket =
     \<lparr>ticket_id = NumId 123456, ticket_number = CNum 789, tags = Some [''Billing''],
      subject = Some ''Test ticket''\<rparr>"

definition sample_evaluation :: evaluation where
  "sample_evaluation =
     \<lparr>overall_score = 17 / 2,
      categories =
        \<lparr>tone_empathy = \<lparr>score = 6, feedback = ''Polite, but the customer was not thanked''\<rparr>,
         clarity_completeness =
           \<lparr>score = 8, feedback = ''Clear explanation but could be more concise''\<rparr>,
         standard_of_english =
           \<lparr>score = 7, feedback = ''Could use more natural phrasing in some areas''\<rparr>,
         problem_resolution =
           \<lparr>score = 8, feedback = ''Addressed the issue but could suggest more alternatives''\<rparr>\<rparr>,
      key_improvements =
        [''Consider suggesting an alternative approach'',
         ''Add a link to the relevant documentation''],
      error = None\<rparr>"

definition contradictory_evaluation :: evaluation where
  "contradictory_evaluation =
     sample_evaluation\<lparr>categories := (categories sample_evaluation)
       \<lparr>problem_resolution :=
          \<lparr>score = 6,
           feedback = ''Provide more detail about the cause, and add more detail on the next steps''\<rparr>\<rparr>\<rparr>"

definition sample_failure :: engine_failure where
  "sample_failure = \<lparr>api_error_message = None, message = ''timeout of 60000ms exceeded''\<rparr>"

definition sample_request :: request where
  "sample_request =
     \<lparr>ticket = sample_ticket,
      response = \<lparr>response_text = ''reply 15551'',
                  agent = Some \<lparr>agent_id = CNum 42, agent_name = ''Ada''\<rparr>\<rparr>,
      cacheKey = ''123456_8c5b8361''\<rparr>"

definition sample_instant :: instant where
  "sample_instant =
     \<lparr>year = 2026, month = 11, day = 2, hour = 4, minute = 40, second = 0, millisecond = 0\<rparr>"

definition later_that_day :: instant where
  "later_that_day = sample_instant\<lparr>hour := 23, minute := 59\<rparr>"

text \<open>
  How the sample store prints the numbers of the samples, and \<open>parseFloat\<close> on these
  texts.
\<close>

definition sample_numbers :: "(rat \<times> string) list" where
  "sample_numbers =
     [(0, ''0''), (6, ''6''), (7, ''7''), (8, ''8''), (17 / 2, ''8.5''), (42, ''42''),
      (789, ''789''), (123456, ''123456'')]"

definition sample_format :: "rat \<Rightarrow> string" where
  "sample_format x = (case map_of sample_numbers x of None \<Rightarrow> ''#'' | Some s \<Rightarrow> s)"

definition sample_parseFloat :: "string \<Rightarrow> rat option" where
  "sample_parseFloat s = map_of (map (\<lambda>(x, t). (t, x)) sample_numbers) s"

definition sample_system :: system where
  "sample_system =
     \<lparr>ticketClassification = sample_classification, openai = sample_openai_env,
      decodeHtml = (\<lambda>s. s), number_format = sample_format, parseFloat = sample_parseFloat\<rparr>"

definition sample_hmac :: "string \<Rightarrow> string \<Rightarrow> string" where
  "sample_hmac secret body = ''E6Fa3PPJBwgrJhklyA3quasHiMY=''"

definition sample_verifier_env :: verifier_env where
  "sample_verifier_env =
     \<lparr>DISABLE_SIGNATURE_VALIDATION = None,
      HELPSCOUT_DYNAMIC_WIDGET_SECRET_KEY = Some ''test-secret'',
      HELPSCOUT_APP_SECRET = Some ''test-app-secret''\<rparr>"

definition sample_signed_request :: signed_request where
  "sample_signed_request =
     \<lparr>x_helpscout_signature = Some ''invalid-signature-xyz123'',
      rawBody = Some ''{\"ticket\":{\"id\":123456}}''\<rparr>"

definition sample_row :: "string list" where
  "sample_row =
     [''2026-11-02T04:40:00.000Z'', ''123456'', ''42'', ''Ada'', ''8.5'', ''6'', ''8'', ''7'', ''8'',
      ''Consider suggesting an alternative approach; Add a link to the relevant documentation'',
      ''reply 15551'', ''789'', ''Polite'', ''Clear'', ''Natural'', ''Resolved'']"

text \<open>
  A ledger of four rows: the sample row, a later row of the same ticket and day, a row of
  another ticket, and a row of the same ticket written the day before but placed last.
\<close>

definition later_row :: "string list" where
  "later_row = sample_row[0 := ''2026-11-02T09:15:00.000Z'', 4 := ''7'']"

definition other_ticket_row :: "string list" where
  "other_ticket_row = sample_row[0 := ''2026-11-02T10:00:00.000Z'', 1 := ''123457'']"

definition yesterday_row :: "string list" where
  "yesterday_row = sample_row[0 := ''2026-11-01T23:59:59.999Z'']"

definition sample_ledger :: sheet where
  "sample_ledger = [sample_row, later_row, other_ticket_row, yesterday_row]"

text \<open>
  Two requests for the same ticket and response arrive before either ledger lookup has
  returned; then both lookups return, with no row for the ticket.
\<close>

definition two_interleaved_requests :: "event list" where
  "two_interleaved_requests =
     [Call sample_request, Call sample_request,
      LookupReturns 0 True sample_instant, LookupReturns 0 True sample_instant]"






section \<open>Cache key: content addressing\<close>

text \<open>The digest of \<open>abc\<close> is the one of the test suite of RFC 1321.\<close>

lemma md5_hex_abc: "md5_hex ''abc'' = ''900150983cd24fb0d6963f7d28e17f72''"
  by code_simp

lemma fingerprint_reply_15551: "responseHash ''reply 15551'' = ''8c5b8361''"
  by code_simp

lemma fingerprint_reply_45040: "responseHash ''reply 45040'' = ''8c5b8361''"
  by code_simp

lemma show_int_123456: "show_int 123456 = ''123456''"
  by (simp add: show_int_def show_nat.simps digit_char_def)

lemma sample_cacheKey: "deriveKey (NumId 123456) ''reply 15551'' = cacheKey sample_request"
  by (simp add: deriveKey_def fingerprint_reply_15551 show_int_123456 sample_request_def)

text \<open>
  Claim C2, as stated: for every ticket id, two different response texts give two
  different cache keys. It fails: the key keeps 32 bits of the digest, and the two texts
  \<open>reply 15551\<close> and \<open>reply 45040\<close> agree on them.
\<close>

theorem deriveKey_collision:
  "''reply 15551'' \<noteq> ''reply 45040''
   \<and> deriveKey (NumId 123456) ''reply 15551'' = deriveKey (NumId 123456) ''reply 45040''"
  by (simp add: deriveKey_def fingerprint_reply_15551 fingerprint_reply_45040)

text \<open>
  Claim C2, amended: for every ticket id and every two response texts, the cache keys are
  equal exactly when the first eight hexadecimal characters of the MD5 digests of the
  texts are equal. So the same text always gives the same key, and texts with different
  fingerprints give different keys.
\<close>

theorem deriveKey_equal_iff_fingerprint:
  "deriveKey tid text1 = deriveKey tid text2 \<longleftrightarrow> responseHash text1 = responseHash text2"
  by (simp add: deriveKey_def)

text \<open>Claim C2, amended, on the two colliding texts.\<close>

theorem deriveKey_equal_iff_fingerprint_witness:
  "deriveKey (StrId ''123456'') ''reply 15551'' = deriveKey (StrId ''123456'') ''reply 45040''"
  using deriveKey_equal_iff_fingerprint [of "StrId ''123456''" "''reply 15551''" "''reply 45040''"]
  by (simp add: fingerprint_reply_15551 fingerprint_reply_45040)

section \<open>Signature verifier: length mismatch\<close>

lemma timingSafeEqual_not_reached_unequal: "signaturePath hmac env req \<noteq> Caught e"
  by (auto simp: signaturePath_def timingSafeEqual_def Let_def)

lemma valid_signature_accepted:
  assumes "DISABLE_SIGNATURE_VALIDATION env \<noteq> Some ''true''"
    and "js_or (HELPSCOUT_DYNAMIC_WIDGET_SECRET_KEY env) (HELPSCOUT_APP_SECRET env) = Some secret"
    and "secret \<noteq> []"
  shows "validateHelpScoutSignature hmac env req \<longleftrightarrow>
           (\<exists>sig. x_helpscout_signature req = Some sig \<and> sig \<noteq> []
              \<and> sig = hmac secret (if truthy (rawBody req) then the (rawBody req) else []))"
  using assms
  by (cases "x_helpscout_signature req")
     (auto simp: validateHelpScoutSignature_def signaturePath_def timingSafeEqual_def Let_def)

text \<open>
  Claim C4: with the validation switched on and a secret configured, a signature header
  whose length differs from the length of the signature computed over the raw body makes
  \<open>validateHelpScoutSignature\<close> return false. The call ends on the
  \<open>length mismatch\<close> return (on the \<open>header missing\<close> one when the header is the empty
  string), so \<open>timingSafeEqual\<close> is not called and nothing is thrown.
\<close>

theorem length_mismatch_rejected:
  assumes enabled: "DISABLE_SIGNATURE_VALIDATION env \<noteq> Some ''true''"
    and secret:
      "js_or (HELPSCOUT_DYNAMIC_WIDGET_SECRET_KEY env) (HELPSCOUT_APP_SECRET env) = Some secret"
      "secret \<noteq> []"
    and header: "x_helpscout_signature req = Some sig"
    and len: "length sig \<noteq> length (hmac secret (case rawBody req of None \<Rightarrow> [] | Some b \<Rightarrow> b))"
  shows "validateHelpScoutSignature hmac env req = False
         \<and> signaturePath hmac env req = (if sig = [] then HeaderMissing else LengthMismatch)"
proof -
  have body: "(if truthy (rawBody req) then the (rawBody req) else [])
                = (case rawBody req of None \<Rightarrow> [] | Some b \<Rightarrow> b)"
    by (cases "rawBody req") auto
  have path: "signaturePath hmac env req = (if sig = [] then HeaderMissing else LengthMismatch)"
    using enabled secret header len
    by (simp add: signaturePath_def Let_def body)
  then show ?thesis
    by (simp add: validateHelpScoutSignature_def)
qed

text \<open>
  Claim C4 on a request of the test script \<open>test-signature.js\<close>: a 24-character header
  against a 28-character signature.
\<close>

theorem length_mismatch_rejected_witness:
  "DISABLE_SIGNATURE_VALIDATION sample_verifier_env \<noteq> Some ''true''
   \<and> js_or (HELPSCOUT_DYNAMIC_WIDGET_SECRET_KEY sample_verifier_env)
        (HELPSCOUT_APP_SECRET sample_verifier_env) = Some ''test-secret''
   \<and> x_helpscout_signature sample_signed_request = Some ''invalid-signature-xyz123''
   \<and> validateHelpScoutSignature sample_hmac sample_verifier_env sample_signed_request = False
   \<and> signaturePath sample_hmac sample_verifier_env sample_signed_request = LengthMismatch"
proof -
  have enabled: "DISABLE_SIGNATURE_VALIDATION sample_verifier_env \<noteq> Some ''true''"
    by (simp add: sample_verifier_env_def)
  have secret: "js_or (HELPSCOUT_DYNAMIC_WIDGET_SECRET_KEY sample_verifier_env)
                  (HELPSCOUT_APP_SECRET sample_verifier_env) = Some ''test-secret''"
    by (simp add: sample_verifier_env_def js_or_def)
  have header: "x_helpscout_signature sample_signed_request = Some ''invalid-signature-xyz123''"
    by (simp add: sample_signed_request_def)
  have len: "length ''invalid-signature-xyz123''
               \<noteq> length (sample_hmac ''test-secret''
                   (case rawBody sample_signed_request of None \<Rightarrow> [] | Some b \<Rightarrow> b))"
    by (simp add: sample_hmac_def)
  have nonempty: "''test-secret'' \<noteq> []"
    by simp
  show ?thesis
    using length_mismatch_rejected [where hmac = sample_hmac, OF enabled secret nonempty header len]
      enabled secret header
    by simp
qed

section \<open>Context classifier: rule precedence\<close>

lemma isServicesTicket_iff:
  "isServicesTicket config tk \<longleftrightarrow>
     (\<exists>tag \<in> set (ticket_tags tk). \<exists>keyword \<in> set (services_keywords config).
        js_includes (toLowerCase tag) keyword)"
  by (simp add: isServicesTicket_def list_ex_iff)

lemma services_rule_refined:
  assumes "lower_case_keywords config"
  shows "isServicesTicket config tk = services_rule config (ticket_tags tk)"
  using assms
  by (auto simp: isServicesTicket_def services_rule_def lower_case_keywords_def
      list_ex_iff list_all_iff contains_ci_def)

lemma presales_rule_refined:
  assumes "lower_case_keywords config"
  shows "isPresalesTicket config tk
           = presales_rule config (ticket_tags tk) (case subject tk of None \<Rightarrow> [] | Some s \<Rightarrow> s)"
  using assms
  by (cases "subject tk")
     (auto simp: isPresalesTicket_def presales_rule_def lower_case_keywords_def
        list_ex_iff list_all_iff contains_ci_def toLowerCase_def)

lemma investigating_rule_refined:
  "isInvestigating config cleanText = investigating_rule config cleanText"
  by (simp add: isInvestigating_def investigating_rule_def list_ex_iff contains_ci_def)

text \<open>
  Claim C6: \<open>getContextNote\<close> returns the services note whenever some tag contains a
  services keyword, whatever the other rules say; otherwise the presales note whenever
  some tag contains a presales keyword or the subject contains a presales subject
  keyword; otherwise the investigating note whenever the response text contains an
  investigating phrase; otherwise the empty string. Containment ignores case. The
  source folds the case of the tag and of the subject and takes the keyword as the
  configuration file spells it, so the keywords of the file are taken to be in lower case
  (and the subject keywords not empty: a ticket without a subject matches none).
\<close>

theorem getContextNote_precedence:
  assumes "lower_case_keywords config"
  shows "getContextNote config tk cleanText =
     (if services_rule config (ticket_tags tk) then services_context_note config
      else if presales_rule config (ticket_tags tk) (case subject tk of None \<Rightarrow> [] | Some s \<Rightarrow> s)
        then presales_context_note config
      else if investigating_rule config cleanText then investigating_context_note config
      else [])"
  by (simp add: getContextNote_def services_rule_refined [OF assms]
      presales_rule_refined [OF assms] investigating_rule_refined)

text \<open>
  Claim C6 on a ticket tagged \<open>Services\<close> whose response also holds an investigating
  phrase: the services note wins.
\<close>

theorem getContextNote_precedence_witness:
  "lower_case_keywords sample_classification
   \<and> investigating_rule sample_classification ''We are looking into this for you''
   \<and> getContextNote sample_classification sample_ticket ''We are looking into this for you''
       = ''NOTE: services ticket''"
proof -
  have lower: "lower_case_keywords sample_classification"
    by code_simp
  have services: "services_rule sample_classification (ticket_tags sample_ticket)"
    by code_simp
  have investigating:
    "investigating_rule sample_classification ''We are looking into this for you''"
    by code_simp
  have services_note: "services_context_note sample_classification = ''NOTE: services ticket''"
    by (simp add: sample_classification_def)
  show ?thesis
    using getContextNote_precedence [OF lower, of sample_ticket "''We are looking into this for you''"]
      lower services investigating services_note
    by simp
qed

section \<open>Post-processor\<close>

text \<open>
  Claim C7 says that, when the clarity feedback contains \<open>concise\<close> and the resolution
  feedback contains \<open>provide more detail\<close>, the resolution feedback that
  \<open>validateEvaluation\<close> returns no longer contains \<open>more detail\<close>. The source deletes the
  occurrences of \<open>provide more detail\<close> only. On the clarity feedback
  \<open>Clear explanation but could be more concise\<close> and the resolution feedback
  \<open>Provide more detail about the cause, and add more detail on the next steps\<close> the
  result still contains \<open>more detail\<close>.
\<close>

theorem contradiction_not_removed:
  "js_includes (toLowerCase (feedback (clarity_completeness (categories contradictory_evaluation))))
     ''concise''
   \<and> js_includes (toLowerCase (feedback (problem_resolution (categories contradictory_evaluation))))
       ''provide more detail''
   \<and> feedback (problem_resolution (categories
         (validateEvaluation sample_classification contradictory_evaluation ''reply 15551''
            plain_ticket)))
       = ''about the cause, and add more detail on the next steps''
   \<and> js_includes ''about the cause, and add more detail on the next steps'' ''more detail''"
  by code_simp

text \<open>
  Claim C8: for a ticket with a tag that contains a services keyword (the classifier's
  test: the tag, in lower case, contains the keyword), the tone score of the
  post-processed evaluation is the maximum of the original score and 7, hence at least 7,
  and the tone feedback is the fixed note; for any other ticket the tone category is left
  as it was.
\<close>

theorem services_tone_floor:
  "tone_empathy (categories (validateEvaluation config ev responseText tk)) =
     (if \<exists>tag \<in> set (ticket_tags tk). \<exists>keyword \<in> set (services_keywords config).
           js_includes (toLowerCase tag) keyword
      then \<lparr>score = max (score (tone_empathy (categories ev))) 7,
            feedback = ''Services team communication - standard tone requirements adjusted''\<rparr>
      else tone_empathy (categories ev))
   \<and> ((\<exists>tag \<in> set (ticket_tags tk). \<exists>keyword \<in> set (services_keywords config).
           js_includes (toLowerCase tag) keyword)
        \<longrightarrow> 7 \<le> score (tone_empathy (categories (validateEvaluation config ev responseText tk))))"
  by (simp add: validateEvaluation_def clean_improvements_def adjust_services_tone_def
      fix_contradiction_def Let_def isServicesTicket_iff)

text \<open>
  Claim C8 on the sample evaluation (tone score 6): 7 for the ticket tagged \<open>Services\<close>,
  and still 6 for the ticket without such a tag.
\<close>

theorem services_tone_floor_witness:
  "tone_empathy (categories
     (validateEvaluation sample_classification sample_evaluation ''reply 15551'' sample_ticket))
   = \<lparr>score = 7, feedback = ''Services team communication - standard tone requirements adjusted''\<rparr>
   \<and> tone_empathy (categories
        (validateEvaluation sample_classification sample_evaluation ''reply 15551'' plain_ticket))
     = tone_empathy (categories sample_evaluation)"
proof -
  have tagged: "\<exists>tag \<in> set (ticket_tags sample_ticket).
      \<exists>keyword \<in> set (services_keywords sample_classification).
        js_includes (toLowerCase tag) keyword"
    by code_simp
  have untagged: "\<not> (\<exists>tag \<in> set (ticket_tags plain_ticket).
      \<exists>keyword \<in> set (services_keywords sample_classification).
        js_includes (toLowerCase tag) keyword)"
    by code_simp
  have six: "score (tone_empathy (categories sample_evaluation)) = 6"
    by (simp add: sample_evaluation_def)
  show ?thesis
    using services_tone_floor [of sample_classification sample_evaluation "''reply 15551''" sample_ticket]
      services_tone_floor [of sample_classification sample_evaluation "''reply 15551''" plain_ticket]
      tagged untagged six
    by simp
qed

section \<open>Scores of the evaluations produced\<close>

lemma validateEvaluation_keeps_range:
  "scores_in_range ev \<Longrightarrow> scores_in_range (validateEvaluation config ev responseText tk)"
  by (auto simp: scores_in_range_def validateEvaluation_def clean_improvements_def
      adjust_services_tone_def fix_contradiction_def Let_def)

lemma errorResult_zero: "scores_all_zero (errorResult e)"
  by (simp add: scores_all_zero_def errorResult_def unable_def)


lemma errorResult_error:
  "truthy (api_error_message e) \<or> message e \<noteq> [] \<Longrightarrow> truthy (error (errorResult e))"
  by (auto simp: errorResult_def js_or_def)

lemma evaluateResponse_failure:
  "truthy (OPENAI_API_KEY env) \<Longrightarrow>
     evaluateResponse config env cleanText tk (EngineFail e) = errorResult e"
  by (simp add: evaluateResponse_def)

lemma evaluateResponse_no_key:
  "\<not> truthy (OPENAI_API_KEY env) \<Longrightarrow>
     evaluateResponse config env cleanText tk outcome
       = errorResult \<lparr>api_error_message = None, message = ''OpenAI API key is missing''\<rparr>"
  by (simp add: evaluateResponse_def)

text \<open>
  Claim C3, as stated: every evaluation the system produces, the synthetic result of a
  failed engine call included, has its four category scores in the interval from 1 to 10.
  It fails on the synthetic result: its scores are 0.
\<close>

theorem synthetic_result_out_of_range:
  "\<not> scores_in_range
       (evaluateResponse sample_classification sample_openai_env ''reply 15551'' sample_ticket
          (EngineFail sample_failure))"
  by code_simp

text \<open>
  Claim C3, amended: an evaluation produced from an engine answer whose four category
  scores lie in the interval from 1 to 10 has its four category scores in that interval
  (the post-processor keeps them there); the synthetic result produced when the engine
  call fails, or when no API key is configured, has all four category scores equal to 0.
\<close>

theorem evaluateResponse_score_range:
  "(case outcome of
      EngineOk raw \<Rightarrow>
        if truthy (OPENAI_API_KEY env)
        then scores_in_range raw
               \<longrightarrow> scores_in_range (evaluateResponse config env cleanText tk outcome)
        else scores_all_zero (evaluateResponse config env cleanText tk outcome)
    | EngineFail e \<Rightarrow> scores_all_zero (evaluateResponse config env cleanText tk outcome))"
proof (cases outcome)
  case (EngineOk raw)
  then show ?thesis
    by (simp add: evaluateResponse_no_key errorResult_zero)
       (simp add: evaluateResponse_def Let_def validateEvaluation_keeps_range)
next
  case (EngineFail e)
  then show ?thesis
    by (cases "truthy (OPENAI_API_KEY env)")
       (simp_all add: evaluateResponse_no_key evaluateResponse_failure errorResult_zero)
qed

text \<open>
  Claim C3, amended, on the sample evaluation (with the tone score raised for the
  services ticket) and on the engine's time-out.
\<close>

theorem evaluateResponse_score_range_witness:
  "truthy (OPENAI_API_KEY sample_openai_env)
   \<and> scores_in_range sample_evaluation
   \<and> scores_in_range
        (evaluateResponse sample_classification sample_openai_env ''reply 15551'' sample_ticket
           (EngineOk sample_evaluation))
   \<and> scores_all_zero
        (evaluateResponse sample_classification sample_openai_env ''reply 15551'' sample_ticket
           (EngineFail sample_failure))"
proof -
  have key: "truthy (OPENAI_API_KEY sample_openai_env)"
    by (simp add: sample_openai_env_def)
  have range: "scores_in_range sample_evaluation"
    by (simp add: scores_in_range_def sample_evaluation_def)
  show ?thesis
    using evaluateResponse_score_range [where outcome = "EngineOk sample_evaluation"
        and env = sample_openai_env and config = sample_classification
        and cleanText = "''reply 15551''" and tk = sample_ticket]
      evaluateResponse_score_range [where outcome = "EngineFail sample_failure"
        and env = sample_openai_env and config = sample_classification
        and cleanText = "''reply 15551''" and tk = sample_ticket]
      key range
    by simp
qed

section \<open>Ledger: append, then look up\<close>

lemma set_show_nat: "set (show_nat n) \<subseteq> set ''0123456789''"
proof (induction n rule: show_nat.induct)
  case (1 n)
  have digit: "digit_char n \<in> set ''0123456789''"
    unfolding digit_char_def by (rule nth_mem) simp
  show ?case
  proof (cases "n < 10")
    case True
    then show ?thesis using digit by (subst show_nat.simps) simp
  next
    case False
    then show ?thesis using digit 1 by (subst show_nat.simps) simp
  qed
qed

lemma set_pad: "set (pad k s) \<subseteq> insert CHR ''0'' (set s)"
  by (auto simp: pad_def)

lemma no_T_in_pad: "CHR ''T'' \<notin> set (pad k (show_nat n))"
  using set_pad [of k "show_nat n"] set_show_nat [of n] by auto

lemma no_T_in_iso_date: "CHR ''T'' \<notin> set (iso_date t)"
  by (simp add: iso_date_def no_T_in_pad)

lemma split_from_T:
  "CHR ''T'' \<notin> set pre \<Longrightarrow>
     split_from ''T'' cur (pre @ CHR ''T'' # rest) = (cur @ pre) # split_from ''T'' [] rest"
  by (induction pre arbitrary: cur) auto

lemma hd_split_toISOString: "hd (split ''T'' (toISOString t)) = iso_date t"
  using split_from_T [OF no_T_in_iso_date, where cur = "[]" and rest = "iso_time t" and t1 = t]
  by (simp add: split_def toISOString_def)

lemma iso_date_same_day: "same_calendar_day t u \<Longrightarrow> iso_date t = iso_date u"
  by (simp add: same_calendar_day_def iso_date_def)

lemma toISOString_not_empty: "toISOString t \<noteq> []"
  by (simp add: toISOString_def)

lemma string_or_empty_Some: "string_or_empty (Some s) = s"
  by (simp add: string_or_empty_def)

lemma number_or_0_Some: "pf s = Some x \<Longrightarrow> number_or_0 pf (Some s) = x"
  by (simp add: number_or_0_def)

lemma replicate_2: "replicate 2 x = [x, x]"
  by (simp add: numeral_2_eq_2)

lemma toISOString_sample: "toISOString sample_instant = ''2026-11-02T04:40:00.000Z''"
  by (simp add: toISOString_def iso_date_def iso_time_def sample_instant_def pad_def
      show_nat.simps digit_char_def replicate_2)

text \<open>
  Claim C9: a row is appended for a ticket (\<open>saveToGoogleSheets\<close>), and the ticket is
  then looked up on the same calendar day (\<open>checkGoogleSheets\<close>): the lookup returns an
  evaluation whose overall score, four category scores and four feedback texts are the
  ones appended. Both calls to the store succeed, whatever rows it held before. The
  store prints the ticket id as JavaScript does and prints each of the five scores as a
  text that \<open>parseFloat\<close> reads back as that score.
\<close>

theorem ledger_round_trip:
  assumes agent: "agent resp = Some ag"
    and day: "same_calendar_day t_save t_lookup"
    and ident: "sheet_cell fmt (id_cell (ticket_id tk)) = String_id (ticket_id tk)"
    and numbers:
      "list_all (\<lambda>x. pf (fmt x) = Some x)
         [overall_score ev, score (tone_empathy (categories ev)),
          score (clarity_completeness (categories ev)),
          score (standard_of_english (categories ev)),
          score (problem_resolution (categories ev))]"
  shows "map_option (\<lambda>found. (overall_score found, categories found))
           (checkGoogleSheets pf (ticket_id tk)
              (Some (saveToGoogleSheets fmt True t_save tk resp ev rows)) True t_lookup)
         = Some (overall_score ev, categories ev)"
proof -
  define row where "row = map (sheet_cell fmt) (rowData t_save tk ag resp ev)"
  have r0: "row_at row 0 = Some (toISOString t_save)"
    by (simp add: row_def rowData_def row_at_def sheet_cell_def)
  have r1: "row_at row (Suc 0) = Some (String_id (ticket_id tk))"
    using ident by (simp add: row_def rowData_def row_at_def)
  have date: "rowDate row = Some (hd (split ''T'' (toISOString t_lookup)))"
    using iso_date_same_day [OF day]
    by (simp add: rowDate_def r0 toISOString_not_empty hd_split_toISOString)
  have found: "checkGoogleSheets pf (ticket_id tk)
                 (Some (saveToGoogleSheets fmt True t_save tk resp ev rows)) True t_lookup
               = Some (row_evaluation pf row)"
    by (simp add: checkGoogleSheets_def saveToGoogleSheets_def agent date r1 String_cell_def
        flip: row_def)
  have parsed: "number_or_0 pf (Some (fmt x)) = x" if "pf (fmt x) = Some x" for x
    using that by (rule number_or_0_Some)
  have overall: "overall_score (row_evaluation pf row) = overall_score ev"
    using numbers
    by (simp add: row_evaluation_def row_def rowData_def row_at_def sheet_cell_def parsed)
  have cats: "categories (row_evaluation pf row) = categories ev"
    using numbers
    by (simp add: row_evaluation_def row_def rowData_def row_at_def sheet_cell_def parsed
        string_or_empty_Some)
  show ?thesis
    by (simp add: found overall cats)
qed

text \<open>
  Claim C9 on the sample evaluation, saved at 04:40 and looked up at 23:59 of the same
  day, in a ledger that already holds a row.
\<close>

theorem ledger_round_trip_witness:
  "agent (response sample_request) = Some \<lparr>agent_id = CNum 42, agent_name = ''Ada''\<rparr>
   \<and> same_calendar_day sample_instant later_that_day
   \<and> sheet_cell sample_format (id_cell (ticket_id sample_ticket)) = String_id (ticket_id sample_ticket)
   \<and> map_option (\<lambda>found. (overall_score found, categories found))
        (checkGoogleSheets sample_parseFloat (ticket_id sample_ticket)
           (Some (saveToGoogleSheets sample_format True sample_instant sample_ticket
                    (response sample_request) sample_evaluation [sample_row]))
           True later_that_day)
      = Some (17 / 2, categories sample_evaluation)"
proof -
  have agent: "agent (response sample_request) = Some \<lparr>agent_id = CNum 42, agent_name = ''Ada''\<rparr>"
    by (simp add: sample_request_def)
  have day: "same_calendar_day sample_instant later_that_day"
    by (simp add: same_calendar_day_def sample_instant_def later_that_day_def)
  have ident: "sheet_cell sample_format (id_cell (ticket_id sample_ticket))
                 = String_id (ticket_id sample_ticket)"
    by (simp add: sample_ticket_def id_cell_def sheet_cell_def sample_format_def
        sample_numbers_def show_int_123456)
  have numbers:
    "list_all (\<lambda>x. sample_parseFloat (sample_format x) = Some x)
       [overall_score sample_evaluation, score (tone_empathy (categories sample_evaluation)),
        score (clarity_completeness (categories sample_evaluation)),
        score (standard_of_english (categories sample_evaluation)),
        score (problem_resolution (categories sample_evaluation))]"
    by code_simp
  have overall: "overall_score sample_evaluation = 17 / 2"
    by (simp add: sample_evaluation_def)
  show ?thesis
    using ledger_round_trip [OF agent day ident numbers, of "[sample_row]"] agent day ident overall
    by simp
qed

lemma scan_rows_id_coercion:
  "scan_rows pf (NumId n) today rows = scan_rows pf (StrId (String_id (NumId n))) today rows"
  by (induction rows) simp_all

text \<open>
  \<open>String\<close> of a number, digit by digit on the integer itself: the form in which
  \<open>show_int\<close> is evaluated on the sample inputs below.
\<close>

lemma digit_char_nat_mod: "0 \<le> i \<Longrightarrow> digit_char (nat (i mod 10)) = digit_char (nat i)"
  by (simp add: digit_char_def nat_mod_distrib)

lemma show_int_code [code]:
  "show_int i =
     (if i < 0 then CHR ''-'' # show_int (- i)
      else if i < 10 then [digit_char (nat i)]
      else show_int (i div 10) @ [digit_char (nat (i mod 10))])"
proof -
  consider "i < 0" | "0 \<le> i" "i < 10" | "10 \<le> i"
    by linarith
  then show ?thesis
  proof cases
    case 1
    then show ?thesis by (simp add: show_int_def)
  next
    case 2
    then have "nat i < 10" by linarith
    with 2 show ?thesis by (simp add: show_int_def show_nat.simps [of "nat i"])
  next
    case 3
    then have "nat i div 10 = nat (i div 10)" and "\<not> nat i < 10" and "\<not> i div 10 < 0"
      by (simp_all add: nat_div_distrib)
    with 3 show ?thesis
      by (simp add: show_int_def show_nat.simps [of "nat i"] digit_char_nat_mod)
  qed
qed

text \<open>
  Claim C10: the lookup compares \<open>String(rowTicketId)\<close> with \<open>String(ticketId)\<close> and
  the day of the row with today's. Looking a ticket up by its numeric id and by the
  decimal string of that id gives the same result on every ledger. A numeric id matches a
  row of today whose id cell holds the decimal string of the number: when that row is the
  last one, it is the one returned. A row with another id cell or another day is passed
  over, and the search goes on with the rows before it. Altogether, when the rows have
  been fetched, the lookup returns the evaluation read from the last row whose id cell,
  as a string, equals the ticket id, as a string, and whose day is today's, and nothing
  when there is no such row; the rows that qualify are the same for the number and for
  its decimal string.
\<close>

theorem lookup_id_coercion:
  "checkGoogleSheets pf (NumId n) sheets fetch_ok now
     = checkGoogleSheets pf (StrId (String_id (NumId n))) sheets fetch_ok now
   \<and> (row_at row 1 = Some (show_int n) \<and> rowDate row = Some today
        \<longrightarrow> scan_rows pf (NumId n) today (row # earlier) = Some (row_evaluation pf row))
   \<and> (String_cell (row_at row 1) \<noteq> show_int n \<or> rowDate row \<noteq> Some today
        \<longrightarrow> scan_rows pf (NumId n) today (row # earlier) = scan_rows pf (NumId n) today earlier)
   \<and> checkGoogleSheets pf ticketId (Some rows) True now
       = map_option (row_evaluation pf)
           (find (\<lambda>row. String_cell (row_at row 1) = String_id ticketId
                         \<and> rowDate row = Some (iso_date now))
              (rev rows))
   \<and> filter (\<lambda>row. String_cell (row_at row 1) = String_id (NumId n) \<and> rowDate row = Some today) rows
       = filter (\<lambda>row. String_cell (row_at row 1) = String_id (StrId (show_int n))
                        \<and> rowDate row = Some today) rows
   \<and> filter (\<lambda>row. String_cell (row_at row 1) = String_id (NumId n) \<and> rowDate row = Some today) rows
       = filter (\<lambda>row. String_cell (row_at row 1) = show_int n \<and> rowDate row = Some today) rows"
proof -
  have scan: "scan_rows pf ticketId day rs
      = map_option (row_evaluation pf)
          (find (\<lambda>row. String_cell (row_at row 1) = String_id ticketId \<and> rowDate row = Some day) rs)"
    for day rs
    by (induction rs) simp_all
  have fetched: "checkGoogleSheets pf ticketId (Some rows) True now
       = map_option (row_evaluation pf)
           (find (\<lambda>row. String_cell (row_at row 1) = String_id ticketId
                         \<and> rowDate row = Some (iso_date now))
              (rev rows))"
    by (simp add: checkGoogleSheets_def scan hd_split_toISOString)
  have same: "checkGoogleSheets pf (NumId n) sheets fetch_ok now
     = checkGoogleSheets pf (StrId (String_id (NumId n))) sheets fetch_ok now"
    by (simp add: checkGoogleSheets_def scan_rows_id_coercion split: option.split)
  have hit: "row_at row 1 = Some (show_int n) \<and> rowDate row = Some today
        \<longrightarrow> scan_rows pf (NumId n) today (row # earlier) = Some (row_evaluation pf row)"
    by (simp add: String_cell_def)
  have miss: "String_cell (row_at row 1) \<noteq> show_int n \<or> rowDate row \<noteq> Some today
        \<longrightarrow> scan_rows pf (NumId n) today (row # earlier) = scan_rows pf (NumId n) today earlier"
    by auto
  show ?thesis
    using same hit miss fetched by simp
qed

text \<open>
  Claim C10 on the sample ledger, looked up with the number 123456 on the day of the
  sample row. Going from the last row up, the lookup passes over the row of the day
  before and the row of ticket 123457 and returns the later of the two rows of the
  ticket, whose id cell is the text \<open>123456\<close>; the lookup with the text \<open>123456\<close>
  returns the same.
\<close>

theorem lookup_id_coercion_witness:
  "row_at later_row 1 = Some (show_int 123456)
   \<and> rowDate later_row = Some ''2026-11-02''
   \<and> scan_rows sample_parseFloat (NumId 123456) ''2026-11-02'' [later_row, sample_row]
       = Some (row_evaluation sample_parseFloat later_row)
   \<and> rowDate yesterday_row \<noteq> Some ''2026-11-02''
   \<and> String_cell (row_at other_ticket_row 1) \<noteq> show_int 123456
   \<and> scan_rows sample_parseFloat (NumId 123456) ''2026-11-02'' (rev sample_ledger)
       = scan_rows sample_parseFloat (NumId 123456) ''2026-11-02'' [later_row, sample_row]
   \<and> checkGoogleSheets sample_parseFloat (NumId 123456) (Some sample_ledger) True sample_instant
       = Some (row_evaluation sample_parseFloat later_row)
   \<and> checkGoogleSheets sample_parseFloat (StrId ''123456'') (Some sample_ledger) True sample_instant
       = Some (row_evaluation sample_parseFloat later_row)
   \<and> overall_score (row_evaluation sample_parseFloat later_row) = 7
   \<and> checkGoogleSheets sample_parseFloat (NumId 123457) (Some sample_ledger) True sample_instant
       = Some (row_evaluation sample_parseFloat other_ticket_row)
   \<and> checkGoogleSheets sample_parseFloat (NumId 123458) (Some sample_ledger) True sample_instant
       = None"
proof -
  have cell: "row_at later_row 1 = Some (show_int 123456)"
    by code_simp
  have date: "rowDate later_row = Some ''2026-11-02''"
    by code_simp
  have yesterday: "rowDate yesterday_row \<noteq> Some ''2026-11-02''"
    by code_simp
  have other: "String_cell (row_at other_ticket_row 1) \<noteq> show_int 123456"
    by code_simp
  have ledger: "rev sample_ledger = [yesterday_row, other_ticket_row, later_row, sample_row]"
    by (simp add: sample_ledger_def)
  have today: "iso_date sample_instant = ''2026-11-02''"
    by code_simp
  have ids: "String_id (StrId ''123456'') = show_int 123456" "String_id (NumId 123456) = show_int 123456"
    by code_simp+
  note last = lookup_id_coercion [of sample_parseFloat 123456 "Some sample_ledger" True sample_instant
      later_row "''2026-11-02''" "[sample_row]"]
  note skip1 = lookup_id_coercion [where pf = sample_parseFloat and n = 123456 and row = yesterday_row
      and today = "''2026-11-02''" and earlier = "[other_ticket_row, later_row, sample_row]"]
  note skip2 = lookup_id_coercion [where pf = sample_parseFloat and n = 123456 and row = other_ticket_row
      and today = "''2026-11-02''" and earlier = "[later_row, sample_row]"]
  have found: "scan_rows sample_parseFloat (NumId 123456) ''2026-11-02'' [later_row, sample_row]
       = Some (row_evaluation sample_parseFloat later_row)"
    using last cell date by blast
  have skipped: "scan_rows sample_parseFloat (NumId 123456) ''2026-11-02'' (rev sample_ledger)
       = scan_rows sample_parseFloat (NumId 123456) ''2026-11-02'' [later_row, sample_row]"
    unfolding ledger using skip1 skip2 yesterday other by metis
  have number: "checkGoogleSheets sample_parseFloat (NumId 123456) (Some sample_ledger) True sample_instant
       = Some (row_evaluation sample_parseFloat later_row)"
    using found skipped by (simp add: checkGoogleSheets_def hd_split_toISOString today)
  have string: "checkGoogleSheets sample_parseFloat (StrId ''123456'') (Some sample_ledger) True sample_instant
       = Some (row_evaluation sample_parseFloat later_row)"
    using last number ids by simp
  have score: "overall_score (row_evaluation sample_parseFloat later_row) = 7"
    by code_simp
  have another: "checkGoogleSheets sample_parseFloat (NumId 123457) (Some sample_ledger) True sample_instant
       = Some (row_evaluation sample_parseFloat other_ticket_row)"
    by code_simp
  have none: "checkGoogleSheets sample_parseFloat (NumId 123458) (Some sample_ledger) True sample_instant
       = None"
    by code_simp
  show ?thesis
    using cell date found yesterday other skipped number string score another none by blast
qed

section \<open>Orchestrator: failures are cached\<close>































section \<open>Orchestrator: two requests across the ledger lookup\<close>

text \<open>
  When no two calls of \<open>process\<close> overlap at the ledger lookup, the bookkeeping of
  \<open>runningEvaluations\<close> does what it is there for: in every state such a run reaches, at
  most one background evaluation per key is in flight.
\<close>

lemma length_filter_without:
  assumes "i < length xs"
  shows "length (filter P (without i xs)) = length (filter P xs) - (if P (xs ! i) then 1 else 0)"
proof -
  have "xs = take i xs @ xs ! i # drop (Suc i) xs"
    using assms by (simp add: id_take_nth_drop)
  then have "filter P xs = filter P (take i xs) @ filter P [xs ! i] @ filter P (drop (Suc i) xs)"
    by (metis append_Cons append_Nil filter_append)
  then show ?thesis
    by (simp add: without_def)
qed

lemma filter_nth_pos: "i < length xs \<Longrightarrow> P (xs ! i) \<Longrightarrow> 0 < length (filter P xs)"
  by (metis filter_empty_conv length_greater_0_conv nth_mem)

lemma in_flight_engine:
  assumes i: "i < length (awaiting_engine s)"
  shows "in_flight (step sys (EngineReturns i outcome now) s) k =
           (if googleSheets s \<noteq> None \<and> agent (response (awaiting_engine s ! i)) \<noteq> None
            then in_flight s k
            else in_flight s k - (if cacheKey (awaiting_engine s ! i) = k then 1 else 0))"
    and "runningEvaluations (step sys (EngineReturns i outcome now) s) =
           (if googleSheets s \<noteq> None \<and> agent (response (awaiting_engine s ! i)) \<noteq> None
            then runningEvaluations s
            else runningEvaluations s - {cacheKey (awaiting_engine s ! i)})"
proof -
  define d where "d = awaiting_engine s ! i"
  define e where "e = length (filter (\<lambda>x. cacheKey x = k) (awaiting_engine s))"
  define v where "v = length (filter (\<lambda>p. cacheKey (save_request p) = k) (awaiting_save s))"
  have e': "length (filter (\<lambda>x. cacheKey x = k) (without i (awaiting_engine s)))
              = e - (if cacheKey d = k then 1 else 0)"
    unfolding e_def d_def by (rule length_filter_without [OF i])
  have pos: "0 < e" if "cacheKey d = k"
    unfolding e_def using i that by (intro filter_nth_pos [of i]) (simp_all add: d_def)
  have old: "in_flight s k = e + v"
    by (simp add: in_flight_def e_def v_def)
  have "in_flight (step sys (EngineReturns i outcome now) s) k =
           (if googleSheets s \<noteq> None \<and> agent (response d) \<noteq> None
            then e + v
            else e + v - (if cacheKey d = k then 1 else 0))"
    using i pos
    by (auto simp add: in_flight_def background_result_def Let_def e' simp flip: d_def v_def)
  then show "in_flight (step sys (EngineReturns i outcome now) s) k =
           (if googleSheets s \<noteq> None \<and> agent (response (awaiting_engine s ! i)) \<noteq> None
            then in_flight s k
            else in_flight s k - (if cacheKey (awaiting_engine s ! i) = k then 1 else 0))"
    by (simp add: old d_def)
  show "runningEvaluations (step sys (EngineReturns i outcome now) s) =
           (if googleSheets s \<noteq> None \<and> agent (response (awaiting_engine s ! i)) \<noteq> None
            then runningEvaluations s
            else runningEvaluations s - {cacheKey (awaiting_engine s ! i)})"
    using i by (simp add: background_result_def Let_def)
qed

lemma single_flight_engine:
  assumes "single_flight s"
  shows "single_flight (step sys (EngineReturns i outcome now) s)"
proof (cases "i < length (awaiting_engine s)")
  case False
  then show ?thesis using assms by simp
next
  case True
  show ?thesis
    unfolding single_flight_def
  proof (intro allI)
    fix k
    have old: "in_flight s k \<le> 1" "in_flight s k = 1 \<longrightarrow> k \<in> runningEvaluations s"
      using assms by (simp_all add: single_flight_def)
    show "in_flight (step sys (EngineReturns i outcome now) s) k \<le> 1 \<and>
          (in_flight (step sys (EngineReturns i outcome now) s) k = 1 \<longrightarrow>
           k \<in> runningEvaluations (step sys (EngineReturns i outcome now) s))"
      unfolding in_flight_engine [OF True] using old by auto
  qed
qed

lemma in_flight_save:
  assumes i: "i < length (awaiting_save s)"
  shows "in_flight (step sys (SaveReturns i append_ok) s) k =
           in_flight s k - (if cacheKey (save_request (awaiting_save s ! i)) = k then 1 else 0)"
    and "runningEvaluations (step sys (SaveReturns i append_ok) s) =
           runningEvaluations s - {cacheKey (save_request (awaiting_save s ! i))}"
proof -
  define e where "e = length (filter (\<lambda>x. cacheKey x = k) (awaiting_engine s))"
  define v where "v = length (filter (\<lambda>p. cacheKey (save_request p) = k) (awaiting_save s))"
  have v': "length (filter (\<lambda>p. cacheKey (save_request p) = k) (without i (awaiting_save s)))
              = v - (if cacheKey (save_request (awaiting_save s ! i)) = k then 1 else 0)"
    unfolding v_def by (rule length_filter_without [OF i])
  have pos: "0 < v" if "cacheKey (save_request (awaiting_save s ! i)) = k"
    unfolding v_def using i that by (intro filter_nth_pos [of i]) simp_all
  have old: "in_flight s k = e + v"
    by (simp add: in_flight_def e_def v_def)
  have "in_flight (step sys (SaveReturns i append_ok) s) k =
           e + v - (if cacheKey (save_request (awaiting_save s ! i)) = k then 1 else 0)"
    using i pos
    by (auto simp add: in_flight_def background_saved_def v' simp flip: e_def)
  then show "in_flight (step sys (SaveReturns i append_ok) s) k =
           in_flight s k - (if cacheKey (save_request (awaiting_save s ! i)) = k then 1 else 0)"
    by (simp add: old)
  show "runningEvaluations (step sys (SaveReturns i append_ok) s) =
           runningEvaluations s - {cacheKey (save_request (awaiting_save s ! i))}"
    using i by (simp add: background_saved_def)
qed

lemma single_flight_save:
  assumes "single_flight s"
  shows "single_flight (step sys (SaveReturns i append_ok) s)"
proof (cases "i < length (awaiting_save s)")
  case False
  then show ?thesis using assms by simp
next
  case True
  show ?thesis
    unfolding single_flight_def
  proof (intro allI)
    fix k
    have old: "in_flight s k \<le> 1" "in_flight s k = 1 \<longrightarrow> k \<in> runningEvaluations s"
      using assms by (simp_all add: single_flight_def)
    show "in_flight (step sys (SaveReturns i append_ok) s) k \<le> 1 \<and>
          (in_flight (step sys (SaveReturns i append_ok) s) k = 1 \<longrightarrow>
           k \<in> runningEvaluations (step sys (SaveReturns i append_ok) s))"
      unfolding in_flight_save [OF True] using old by auto
  qed
qed

lemma without_last: "without (length xs) (xs @ [x]) = xs"
  by (simp add: without_def)

lemma in_flight_request:
  "in_flight (process_uninterrupted sys data fetch_ok now s) k =
     (if \<not> cache_has (cache s) (clock s) (cacheKey data) \<and> cacheKey data \<notin> runningEvaluations s
         \<and> checkGoogleSheets (parseFloat sys) (ticket_id (ticket data)) (googleSheets s) fetch_ok now = None
         \<and> cacheKey data = k
      then in_flight s k + 1 else in_flight s k)"
  "runningEvaluations (process_uninterrupted sys data fetch_ok now s) =
     (if \<not> cache_has (cache s) (clock s) (cacheKey data) \<and> cacheKey data \<notin> runningEvaluations s
         \<and> checkGoogleSheets (parseFloat sys) (ticket_id (ticket data)) (googleSheets s) fetch_ok now = None
      then insert (cacheKey data) (runningEvaluations s) else runningEvaluations s)"
  by (auto simp: process_uninterrupted_def process_call_def process_resume_def in_flight_def
      without_last split: option.splits prod.splits)

lemma single_flight_request:
  assumes "single_flight s"
  shows "single_flight (process_uninterrupted sys data fetch_ok now s)"
  unfolding single_flight_def
proof (intro allI)
  fix k
  have old: "in_flight s k \<le> 1" "in_flight s k = 1 \<longrightarrow> k \<in> runningEvaluations s"
    using assms by (simp_all add: single_flight_def)
  have idle: "in_flight s k = 0" if "k \<notin> runningEvaluations s"
    using old that by arith
  show "in_flight (process_uninterrupted sys data fetch_ok now s) k \<le> 1 \<and>
        (in_flight (process_uninterrupted sys data fetch_ok now s) k = 1 \<longrightarrow>
         k \<in> runningEvaluations (process_uninterrupted sys data fetch_ok now s))"
    unfolding in_flight_request using old idle by auto
qed

lemma single_flight_pause:
  assumes "single_flight s"
  shows "single_flight (step sys (TimePasses ms) s)"
  using assms by (simp add: single_flight_def in_flight_def)

lemma single_flight_serial_step: "single_flight s \<Longrightarrow> single_flight (serial_step sys e s)"
  by (cases e)
     (simp_all only: serial_step.simps single_flight_request single_flight_engine
        single_flight_save single_flight_pause)

lemma single_flight_initial: "single_flight (initial_state sheets)"
  by (simp add: single_flight_def in_flight_def initial_state_def)

lemma single_flight_serial:
  "single_flight (serial_exec sys es (initial_state sheets))"
proof -
  have "single_flight s \<Longrightarrow> single_flight (foldl (\<lambda>s e. serial_step sys e s) s es)" for s
    by (induction es arbitrary: s) (simp_all add: single_flight_serial_step)
  then show ?thesis
    by (simp add: serial_exec_def single_flight_initial)
qed

text \<open>
  Claim C1 says that of any number of calls of \<open>process\<close> for the same unresolved key,
  calls that interleave across the asynchronous ledger lookup included, exactly one
  starts the background evaluation. The source tests \<open>runningEvaluations\<close> before the
  \<open>await\<close> of the lookup and adds the key after it. When two requests for the same key
  arrive before either lookup has returned, both pass the test, both get the processing
  placeholder, and both start an evaluation: two engine calls for the key are in flight.
\<close>

theorem single_flight_race:
  "in_flight (exec sample_system two_interleaved_requests (initial_state (Some [])))
      (cacheKey sample_request) = 2
   \<and> replies (exec sample_system two_interleaved_requests (initial_state (Some [])))
       = [ProcessingHtml, ProcessingHtml]"
  by code_simp

end
